theory Spec2Isabelle
  imports Main "HOL-Library.Log_Nat"
begin

section \<open>Python floats\<close>

text \<open>
  The frequencies handled by \<^verbatim>\<open>gtp_7series.py\<close> are Python floats (\<^verbatim>\<open>125e6\<close>,
  \<^verbatim>\<open>1.6e9\<close>, ...), that is IEEE 754 binary64 values. A float is modelled by the
  rational number it denotes, or one of the two infinities, or NaN. The two zeros are
  identified: they compare equal, and the program never divides by a computed value.
  Every arithmetic operation computes the exact rational result and rounds it to the
  nearest binary64 value, ties to even, as the hardware does.
\<close>

datatype pyfloat = Fin rat | PInf | NInf | NaN

definition pow2 :: "int \<Rightarrow> rat" where
  "pow2 e = (if 0 \<le> e then 2 ^ nat e else 1 / 2 ^ nat (- e))"

text \<open>The binary exponent of a positive rational: \<open>pow2 (ilog2 x) \<le> x < pow2 (ilog2 x + 1)\<close>.\<close>

definition ilog2 :: "rat \<Rightarrow> int" where
  "ilog2 x = (if 1 \<le> x then bitlen \<lfloor>x\<rfloor> - 1 else - bitlen (\<lceil>1 / x\<rceil> - 1))"

text \<open>Rounding to the nearest integer, ties to the even one.\<close>

definition rne :: "rat \<Rightarrow> int" where
  "rne q = (let f = \<lfloor>q\<rfloor>; r = q - of_int f
            in if r < 1 / 2 then f else if 1 / 2 < r then f + 1
               else if even f then f else f + 1)"

text \<open>
  Rounding a rational to binary64: 53 significant bits, exponents from \<open>-1022\<close>
  (below it the spacing of the subnormal numbers stays \<open>2 ^ -1074\<close>) to \<open>1023\<close>
  (a rounded magnitude of \<open>2 ^ 1024\<close> or more overflows to an infinity).
\<close>

definition round_double :: "rat \<Rightarrow> pyfloat" where
  "round_double x =
     (if x = 0 then Fin 0
      else let e = max (ilog2 \<bar>x\<bar>) (- 1022);
               u = pow2 (e - 52);
               y = of_int (rne (x / u)) * u
           in if pow2 1024 \<le> \<bar>y\<bar> then (if 0 < x then PInf else NInf) else Fin y)"

text \<open>A float literal of the source denotes the binary64 value nearest to its decimal value.\<close>

definition float_lit :: "rat \<Rightarrow> pyfloat" where
  "float_lit x = round_double x"

text \<open>
  An \<^verbatim>\<open>int\<close> operand of a mixed operation is converted to float first. The int operands
  of this program are the literals \<^verbatim>\<open>1, 2, 4, 8, 20\<close> and the products \<^verbatim>\<open>n1*n2\<close>.
\<close>

definition of_pyint :: "int \<Rightarrow> pyfloat" where
  "of_pyint i = round_double (of_int i)"

datatype error =
    ValueError pyfloat pyfloat
  | ZeroDivisionError
  | AssertionError
  | KeyError

text \<open>
  \<open>ValueError a b\<close> stands for the exception raised at the end of
  \<^verbatim>\<open>compute_config\<close>: its message is the template
  \<^verbatim>\<open>"No config found for {:3.2f} MHz refclk / {:3.2f} Gbps linerate."\<close> formatted with
  the two values \<open>a\<close> and \<open>b\<close>.
\<close>

fun py_mul :: "pyfloat \<Rightarrow> pyfloat \<Rightarrow> pyfloat" where
  "py_mul NaN _ = NaN"
| "py_mul _ NaN = NaN"
| "py_mul (Fin a) (Fin b) = round_double (a * b)"
| "py_mul (Fin a) PInf = (if a = 0 then NaN else if 0 < a then PInf else NInf)"
| "py_mul (Fin a) NInf = (if a = 0 then NaN else if 0 < a then NInf else PInf)"
| "py_mul PInf (Fin b) = (if b = 0 then NaN else if 0 < b then PInf else NInf)"
| "py_mul NInf (Fin b) = (if b = 0 then NaN else if 0 < b then NInf else PInf)"
| "py_mul PInf PInf = PInf"
| "py_mul PInf NInf = NInf"
| "py_mul NInf PInf = NInf"
| "py_mul NInf NInf = PInf"

text \<open>
  Division of floats for a non-zero divisor. Python tests the divisor first and raises
  \<^verbatim>\<open>ZeroDivisionError\<close> when it is zero, so \<open>float_div\<close> is only reached with a
  non-zero divisor.
\<close>

fun float_div :: "pyfloat \<Rightarrow> pyfloat \<Rightarrow> pyfloat" where
  "float_div NaN _ = NaN"
| "float_div _ NaN = NaN"
| "float_div (Fin a) (Fin b) = round_double (a / b)"
| "float_div PInf (Fin b) = (if 0 < b then PInf else NInf)"
| "float_div NInf (Fin b) = (if 0 < b then NInf else PInf)"
| "float_div (Fin a) _ = Fin 0"
| "float_div _ _ = NaN"

definition py_truediv :: "pyfloat \<Rightarrow> pyfloat \<Rightarrow> error + pyfloat" where
  "py_truediv x y = (if y = Fin 0 then Inl ZeroDivisionError else Inr (float_div x y))"

fun py_le :: "pyfloat \<Rightarrow> pyfloat \<Rightarrow> bool" where
  "py_le NaN _ = False"
| "py_le _ NaN = False"
| "py_le (Fin a) (Fin b) = (a \<le> b)"
| "py_le NInf _ = True"
| "py_le _ PInf = True"
| "py_le _ _ = False"

fun py_lt :: "pyfloat \<Rightarrow> pyfloat \<Rightarrow> bool" where
  "py_lt NaN _ = False"
| "py_lt _ NaN = False"
| "py_lt (Fin a) (Fin b) = (a < b)"
| "py_lt PInf _ = False"
| "py_lt _ NInf = False"
| "py_lt _ _ = True"

definition py_eq :: "pyfloat \<Rightarrow> pyfloat \<Rightarrow> bool" where
  "py_eq x y = (x \<noteq> NaN \<and> x = y)"

section \<open>The PLL configuration: \<^verbatim>\<open>GTPQuadPLL.compute_config\<close>\<close>

text \<open>The dictionary returned by \<^verbatim>\<open>compute_config\<close>, with its seven keys.\<close>

record config =
  n1 :: int
  n2 :: int
  m :: int
  d :: int
  vco_freq :: pyfloat
  clkin :: pyfloat
  linerate :: pyfloat

text \<open>
  The four nested \<^verbatim>\<open>for\<close> loops, innermost first. Each takes the values its loop still
  has to visit. \<open>Inr (Some c)\<close> is a \<^verbatim>\<open>return c\<close> from inside the loop, \<open>Inr None\<close> a
  loop that ran to its end, \<open>Inl e\<close> an exception.
\<close>

fun loop_d :: "pyfloat \<Rightarrow> pyfloat \<Rightarrow> int \<Rightarrow> int \<Rightarrow> int \<Rightarrow> pyfloat \<Rightarrow> int list
    \<Rightarrow> error + config option" where
  "loop_d refclk_freq lr a b c vco [] = Inr None"
| "loop_d refclk_freq lr a b c vco (k # ks) =
     (case py_truediv (py_mul vco (of_pyint 2)) (of_pyint k) of
        Inl e \<Rightarrow> Inl e
      | Inr current_linerate \<Rightarrow>
          if py_eq current_linerate lr
          then Inr (Some \<lparr>n1 = a, n2 = b, m = c, d = k, vco_freq = vco,
                           clkin = refclk_freq, linerate = lr\<rparr>)
          else loop_d refclk_freq lr a b c vco ks)"

fun loop_m :: "pyfloat \<Rightarrow> pyfloat \<Rightarrow> int \<Rightarrow> int \<Rightarrow> int list \<Rightarrow> error + config option" where
  "loop_m refclk_freq lr a b [] = Inr None"
| "loop_m refclk_freq lr a b (c # cs) =
     (case py_truediv (py_mul refclk_freq (of_pyint (a * b))) (of_pyint c) of
        Inl e \<Rightarrow> Inl e
      | Inr vco \<Rightarrow>
          if py_le (float_lit 1600000000) vco \<and> py_le vco (float_lit 3300000000)
          then (case loop_d refclk_freq lr a b c vco [1, 2, 4, 8] of
                  Inl e \<Rightarrow> Inl e
                | Inr (Some cfg) \<Rightarrow> Inr (Some cfg)
                | Inr None \<Rightarrow> loop_m refclk_freq lr a b cs)
          else loop_m refclk_freq lr a b cs)"

fun loop_n2 :: "pyfloat \<Rightarrow> pyfloat \<Rightarrow> int \<Rightarrow> int list \<Rightarrow> error + config option" where
  "loop_n2 refclk_freq lr a [] = Inr None"
| "loop_n2 refclk_freq lr a (b # bs) =
     (case loop_m refclk_freq lr a b [1, 2] of
        Inl e \<Rightarrow> Inl e
      | Inr (Some cfg) \<Rightarrow> Inr (Some cfg)
      | Inr None \<Rightarrow> loop_n2 refclk_freq lr a bs)"

fun loop_n1 :: "pyfloat \<Rightarrow> pyfloat \<Rightarrow> int list \<Rightarrow> error + config option" where
  "loop_n1 refclk_freq lr [] = Inr None"
| "loop_n1 refclk_freq lr (a # as) =
     (case loop_n2 refclk_freq lr a [1, 2, 3, 4, 5] of
        Inl e \<Rightarrow> Inl e
      | Inr (Some cfg) \<Rightarrow> Inr (Some cfg)
      | Inr None \<Rightarrow> loop_n1 refclk_freq lr as)"

text \<open>
  The \<^verbatim>\<open>raise ValueError(msg.format(refclk_freq/1e6, linerate/1e9))\<close> after the loops.
\<close>

definition raise_no_config :: "pyfloat \<Rightarrow> pyfloat \<Rightarrow> error" where
  "raise_no_config refclk_freq lr =
     (case py_truediv refclk_freq (float_lit 1000000) of
        Inl e \<Rightarrow> e
      | Inr x \<Rightarrow>
          (case py_truediv lr (float_lit 1000000000) of
             Inl e \<Rightarrow> e
           | Inr y \<Rightarrow> ValueError x y))"

definition compute_config :: "pyfloat \<Rightarrow> pyfloat \<Rightarrow> error + config" where
  "compute_config refclk_freq lr =
     (case loop_n1 refclk_freq lr [4, 5] of
        Inl e \<Rightarrow> Inl e
      | Inr (Some cfg) \<Rightarrow> Inr cfg
      | Inr None \<Rightarrow> Inl (raise_no_config refclk_freq lr))"

section \<open>The transceiver module: \<^verbatim>\<open>GTP.__init__\<close>\<close>

text \<open>
  \<^verbatim>\<open>GTP.__init__\<close> builds a netlist: it declares signals, adds submodules, adds
  combinational assignments \<^verbatim>\<open>dst.eq(src)\<close> to \<^verbatim>\<open>self.comb\<close> and primitive instances to
  \<^verbatim>\<open>self.specials\<close>. The model records what is built, in the order it is built. A signal
  is named by its owner and its attribute: \<^verbatim>\<open>rx_init.done\<close> is \<open>(''rx_init'', ''done'')\<close>,
  \<^verbatim>\<open>self.rx_ready\<close> is \<open>(''self'', ''rx_ready'')\<close>, the local \<^verbatim>\<open>rxphaligndone\<close> is
  \<open>(''local'', ''rxphaligndone'')\<close>.
\<close>

type_synonym signal = "string \<times> string"

datatype expr =
    Sig signal
  | Bit signal nat
  | Slice signal nat nat
  | Cat "expr list"
  | Const int
  | Str string
  | ClockSignal string

datatype arg = AInt int | AFloat pyfloat

text \<open>
  The classes \<^verbatim>\<open>_TX\<close>, \<^verbatim>\<open>_RX\<close>, \<^verbatim>\<open>GTPTXInit\<close>, \<^verbatim>\<open>GTPRXInit\<close> and
  \<^verbatim>\<open>BruteforceClockAligner\<close> are imported from other modules. A submodule is recorded by
  the name it is bound to, its class, its constructor arguments and the clock domain
  \<^verbatim>\<open>ClockDomainsRenamer\<close> moves it to, if any; constructing one is taken to succeed.
\<close>

datatype submodule = Submodule string string "arg list" "string option"

fun sm_name :: "submodule \<Rightarrow> string" where
  "sm_name (Submodule n c as rn) = n"

fun sm_class :: "submodule \<Rightarrow> string" where
  "sm_class (Submodule n c as rn) = c"

text \<open>A primitive instance: its type and its ports (\<^verbatim>\<open>i_\<close> inputs, \<^verbatim>\<open>o_\<close> outputs, \<^verbatim>\<open>p_\<close> parameters).\<close>

datatype inst = Instance string "(string \<times> expr) list"


fun inst_ports :: "inst \<Rightarrow> (string \<times> expr) list" where
  "inst_ports (Instance t ps) = ps"

record gtp =
  signals :: "(string \<times> nat) list"
  tx_clk_freq :: "pyfloat option"
  submodules :: "submodule list"
  comb :: "(signal \<times> expr) list"
  specials :: "inst list"
  clock_domains :: "string list"

text \<open>The signals declared at the top of \<^verbatim>\<open>__init__\<close>, with their widths, and the two clock outputs.\<close>

definition gtp_signals :: "(string \<times> nat) list" where
  "gtp_signals =
     [(''tx_seldata'', 1), (''rx_seldata'', 1), (''tx_en8b10b'', 1), (''rx_en8b10b'', 1),
      (''enable_err_count'', 2), (''tx_prbs_config'', 2), (''rx_prbs_config'', 2),
      (''rx_global_error'', 32), (''tx_input'', 20), (''tx_mask'', 20), (''rx_mask'', 20),
      (''k'', 2), (''rx_ready'', 1), (''txoutclk'', 1), (''rxoutclk'', 1)]"

text \<open>The control and status assignments of lines 138 to 154.\<close>

definition control_comb :: "(signal \<times> expr) list" where
  "control_comb =
     [((''tx'', ''seldata''), Sig (''self'', ''tx_seldata'')),
      ((''tx'', ''en8b10b''), Sig (''self'', ''tx_en8b10b'')),
      ((''tx'', ''tx_prbs_config''), Sig (''self'', ''tx_prbs_config'')),
      ((''tx'', ''mask''), Sig (''self'', ''tx_mask'')),
      ((''tx'', ''k''), Sig (''self'', ''k'')),
      ((''tx'', ''input''), Sig (''self'', ''tx_input'')),
      ((''rx'', ''seldata''), Sig (''self'', ''rx_seldata'')),
      ((''rx'', ''en8b10b''), Sig (''self'', ''rx_en8b10b'')),
      ((''rx'', ''enable_err_count''), Sig (''self'', ''enable_err_count'')),
      ((''rx'', ''rx_prbs_config''), Sig (''self'', ''rx_prbs_config'')),
      ((''self'', ''rx_global_error''), Sig (''rx'', ''global_error'')),
      ((''rx'', ''mask''), Sig (''self'', ''rx_mask''))]"

text \<open>The PLL wiring of lines 167 to 171.\<close>

definition pll_comb :: "(signal \<times> expr) list" where
  "pll_comb =
     [((''tx_init'', ''plllock''), Sig (''qpll'', ''lock'')),
      ((''rx_init'', ''plllock''), Sig (''qpll'', ''lock'')),
      ((''qpll'', ''reset''), Sig (''tx_init'', ''pllreset''))]"

text \<open>
  The table \<^verbatim>\<open>rxcdr_cfgs\<close> of lines 180 to 185; the values are
  \<^verbatim>\<open>0x0000107FE406001041010\<close>, \<^verbatim>\<open>0x0000107FE206001041010\<close>, \<^verbatim>\<open>0x0000107FE106001041010\<close> and
  \<^verbatim>\<open>0x0000107FE086001041010\<close>.
\<close>

definition rxcdr_cfgs :: "int \<rightharpoonup> int" where
  "rxcdr_cfgs =
     map_of [(1, 19022712657137635344), (2, 19022677472765546512),
             (4, 19022659880579502096), (8, 19022651084486479888)]"

text \<open>The \<^verbatim>\<open>GTPE2_CHANNEL\<close> instance of lines 189 to 341, port by port.\<close>

definition gtpe2_channel :: "config \<Rightarrow> int \<Rightarrow> bool \<Rightarrow> int \<Rightarrow> int \<Rightarrow> inst" where
  "gtpe2_channel qpll_config rxcdr_cfg internal_loopback tx_polarity rx_polarity =
    Instance ''GTPE2_CHANNEL''
     [(''i_GTRESETSEL'', Const 0),
      (''i_RESETOVRD'', Const 0),
      (''p_SIM_RESET_SPEEDUP'', Str ''TRUE''),
      (''i_DRPADDR'', Sig (''rx_init'', ''drpaddr'')),
      (''i_DRPCLK'', ClockSignal ''tx''),
      (''i_DRPDI'', Sig (''rx_init'', ''drpdi'')),
      (''o_DRPDO'', Sig (''rx_init'', ''drpdo'')),
      (''i_DRPEN'', Sig (''rx_init'', ''drpen'')),
      (''o_DRPRDY'', Sig (''rx_init'', ''drprdy'')),
      (''i_DRPWE'', Sig (''rx_init'', ''drpwe'')),
      (''p_PMA_RSV'', Const 819),
      (''p_PMA_RSV2'', Const 8256),
      (''p_PMA_RSV3'', Const 0),
      (''p_PMA_RSV4'', Const 0),
      (''p_RX_BIAS_CFG'', Const 3891),
      (''p_RX_CM_SEL'', Const 1),
      (''p_RX_CM_TRIM'', Const 10),
      (''p_RX_OS_CFG'', Const 128),
      (''p_RXLPM_IPCM_CFG'', Const 1),
      (''i_RXOOBRESET'', Const 0),
      (''i_RXELECIDLEMODE'', Const 3),
      (''i_RXOSINTCFG'', Const 2),
      (''i_RXOSINTEN'', Const 1),
      (''p_PD_TRANS_TIME_FROM_P2'', Const 60),
      (''p_PD_TRANS_TIME_NONE_P2'', Const 60),
      (''p_PD_TRANS_TIME_TO_P2'', Const 100),
      (''i_PLL0CLK'', Sig (''qpll'', ''clk'')),
      (''i_PLL0REFCLK'', Sig (''qpll'', ''refclk'')),
      (''o_TXOUTCLK'', Sig (''self'', ''txoutclk'')),
      (''p_TXOUT_DIV'', Const (d qpll_config)),
      (''i_TXRATE'', Const 0),
      (''i_TXSYSCLKSEL'', Const 0),
      (''i_TXOUTCLKSEL'', Const 3),
      (''i_GTTXRESET'', Sig (''tx_init'', ''gttxreset'')),
      (''i_RXPD'', Cat [Sig (''rx_init'', ''gtrxpd''), Sig (''rx_init'', ''gtrxpd'')]),
      (''i_TXPMARESET'', Const 0),
      (''i_TXPCSRESET'', Const 0),
      (''o_TXRESETDONE'', Sig (''tx_init'', ''txresetdone'')),
      (''i_TXSYNCMODE'', Const 0),
      (''i_TXPHDLYRESET'', Const 0),
      (''i_TXDLYBYPASS'', Const 0),
      (''i_TXSYNCALLIN'', Const 0),
      (''i_TXSYNCIN'', Const 0),
      (''i_TXDLYSRESET'', Sig (''tx_init'', ''txdlysreset'')),
      (''o_TXDLYSRESETDONE'', Sig (''tx_init'', ''txdlysresetdone'')),
      (''i_TXPHINIT'', Sig (''tx_init'', ''txphinit'')),
      (''o_TXPHINITDONE'', Sig (''tx_init'', ''txphinitdone'')),
      (''i_TXPHALIGNEN'', Const 1),
      (''i_TXPHALIGN'', Sig (''tx_init'', ''txphalign'')),
      (''o_TXPHALIGNDONE'', Sig (''tx_init'', ''txphaligndone'')),
      (''i_TXDLYEN'', Sig (''tx_init'', ''txdlyen'')),
      (''i_TXUSERRDY'', Sig (''tx_init'', ''txuserrdy'')),
      (''p_TXBUF_EN'', Str ''FALSE''),
      (''p_TX_XCLK_SEL'', Str ''TXUSR''),
      (''p_TXSYNC_MULTILANE'', Const 0),
      (''p_TXSYNC_SKIP_DA'', Const 0),
      (''p_TXSYNC_OVRD'', Const 1),
      (''p_TX_DATA_WIDTH'', Const 20),
      (''i_TXCHARDISPMODE'', Cat [Bit (''tx'', ''txdata'') 9, Bit (''tx'', ''txdata'') 19]),
      (''i_TXCHARDISPVAL'', Cat [Bit (''tx'', ''txdata'') 8, Bit (''tx'', ''txdata'') 18]),
      (''i_TXDATA'', Cat [Slice (''tx'', ''txdata'') 0 8, Slice (''tx'', ''txdata'') 10 18]),
      (''i_TXUSRCLK'', ClockSignal ''tx''),
      (''i_TXUSRCLK2'', ClockSignal ''tx''),
      (''i_TXBUFDIFFCTRL'', Const 4),
      (''i_TXDIFFCTRL'', Const 8),
      (''i_LOOPBACK'', Const (if internal_loopback then 2 else 0)),
      (''i_GTRXRESET'', Sig (''rx_init'', ''gtrxreset'')),
      (''o_RXRESETDONE'', Sig (''rx_init'', ''rxresetdone'')),
      (''i_RXDLYSRESET'', Sig (''rx_init'', ''rxdlysreset'')),
      (''o_RXDLYSRESETDONE'', Sig (''rx_init'', ''rxdlysresetdone'')),
      (''o_RXPHALIGNDONE'', Sig (''local'', ''rxphaligndone'')),
      (''i_RXSYNCALLIN'', Sig (''local'', ''rxphaligndone'')),
      (''i_RXUSERRDY'', Sig (''rx_init'', ''rxuserrdy'')),
      (''i_RXCDRRESET'', Const 0),
      (''i_RXCDRFREQRESET'', Const 0),
      (''i_RXPMARESET'', Const 0),
      (''i_RXLPMRESET'', Const 0),
      (''i_EYESCANRESET'', Const 0),
      (''i_RXPCSRESET'', Const 0),
      (''i_RXBUFRESET'', Const 0),
      (''i_RXSYNCMODE'', Const 1),
      (''p_RXSYNC_MULTILANE'', Const 0),
      (''p_RXSYNC_OVRD'', Const 0),
      (''o_RXSYNCDONE'', Sig (''rx_init'', ''rxsyncdone'')),
      (''p_RXPMARESET_TIME'', Const 3),
      (''o_RXPMARESETDONE'', Sig (''rx_init'', ''rxpmaresetdone'')),
      (''p_RX_CLK25_DIV'', Const 5),
      (''p_TX_CLK25_DIV'', Const 5),
      (''p_RX_XCLK_SEL'', Str ''RXUSR''),
      (''i_RXRATE'', Const 0),
      (''p_RXOUT_DIV'', Const (d qpll_config)),
      (''i_RXSYSCLKSEL'', Const 0),
      (''i_RXOUTCLKSEL'', Const 2),
      (''o_RXOUTCLK'', Sig (''self'', ''rxoutclk'')),
      (''i_RXUSRCLK'', ClockSignal ''rx''),
      (''i_RXUSRCLK2'', ClockSignal ''rx''),
      (''p_RXCDR_CFG'', Const rxcdr_cfg),
      (''p_RXPI_CFG1'', Const 1),
      (''p_RXPI_CFG2'', Const 1),
      (''p_CLK_CORRECT_USE'', Str ''FALSE''),
      (''p_RXBUF_EN'', Str ''FALSE''),
      (''p_RXDLY_CFG'', Const 31),
      (''p_RXDLY_LCFG'', Const 48),
      (''p_RXPHDLY_CFG'', Const 540704),
      (''p_RXPH_CFG'', Const 12582914),
      (''p_RX_DATA_WIDTH'', Const 20),
      (''i_RXCOMMADETEN'', Const 1),
      (''i_RXDLYBYPASS'', Const 0),
      (''i_RXDDIEN'', Const 1),
      (''o_RXDISPERR'', Cat [Bit (''rx'', ''rxdata'') 9, Bit (''rx'', ''rxdata'') 19]),
      (''o_RXCHARISK'', Cat [Bit (''rx'', ''rxdata'') 8, Bit (''rx'', ''rxdata'') 18]),
      (''o_RXDATA'', Cat [Slice (''rx'', ''rxdata'') 0 8, Slice (''rx'', ''rxdata'') 10 18]),
      (''i_TXPOLARITY'', Const tx_polarity),
      (''i_RXPOLARITY'', Const rx_polarity),
      (''i_GTPRXP'', Sig (''rx_pads'', ''p'')),
      (''i_GTPRXN'', Sig (''rx_pads'', ''n'')),
      (''o_GTPTXP'', Sig (''tx_pads'', ''p'')),
      (''o_GTPTXN'', Sig (''tx_pads'', ''n''))]"

text \<open>
  The constructor. \<open>qpll_config\<close> is \<^verbatim>\<open>qpll.config\<close>. An exception is returned together
  with the module as built when it was raised, so that what had been instantiated by then
  can be read off.
\<close>

definition GTP_init :: "config \<Rightarrow> pyfloat \<Rightarrow> bool \<Rightarrow> bool \<Rightarrow> int \<Rightarrow> int \<Rightarrow> (error \<times> gtp) + gtp" where
  "GTP_init qpll_config sys_clk_freq clock_aligner internal_loopback tx_polarity rx_polarity =
    (let g0 = \<lparr>signals = gtp_signals, tx_clk_freq = None,
               submodules = [Submodule ''tx'' ''_TX'' [AInt 20] (Some ''tx''),
                             Submodule ''rx'' ''_RX'' [AInt 20] (Some ''rx'')],
               comb = [], specials = [], clock_domains = []\<rparr>
     in case py_truediv (linerate qpll_config) (of_pyint 20) of
          Inl e \<Rightarrow> Inl (e, g0)
        | Inr f \<Rightarrow>
           (let g1 = g0\<lparr>tx_clk_freq := Some f,
                        comb := control_comb @ pll_comb,
                        submodules := submodules g0 @
                          [Submodule ''tx_init'' ''GTPTXInit'' [AFloat sys_clk_freq] None,
                           Submodule ''rx_init'' ''GTPRXInit'' [AFloat f] (Some ''tx'')]\<rparr>
            in if \<not> py_lt (linerate qpll_config) (float_lit 6600000000)
               then Inl (AssertionError, g1)
               else
                (case rxcdr_cfgs (d qpll_config) of
                   None \<Rightarrow> Inl (KeyError, g1)
                 | Some rxcdr_cfg \<Rightarrow>
                    (let g2 = g1\<lparr>specials :=
                                [gtpe2_channel qpll_config rxcdr_cfg internal_loopback
                                   tx_polarity rx_polarity,
                                 Instance ''BUFG'' [(''i_I'', Sig (''self'', ''txoutclk'')),
                                                    (''o_O'', Sig (''cd_tx'', ''clk''))],
                                 Instance ''BUFG'' [(''i_I'', Sig (''self'', ''rxoutclk'')),
                                                    (''o_O'', Sig (''cd_rx'', ''clk''))]],
                              clock_domains := [''tx'', ''rx'']\<rparr>
                     in if clock_aligner
                        then Inr (g2\<lparr>
                          submodules := submodules g2 @
                            [Submodule ''clock_aligner'' ''BruteforceClockAligner''
                               [AInt 380, AFloat f, AFloat (float_lit (1 / 100))] None],
                          comb := comb g2 @
                            [((''clock_aligner'', ''rxdata''), Sig (''rx'', ''rxdata'')),
                             ((''rx_init'', ''restart''), Sig (''clock_aligner'', ''restart'')),
                             ((''self'', ''rx_ready''), Sig (''clock_aligner'', ''ready''))]\<rparr>)
                        else Inr (g2\<lparr>
                          comb := comb g2 @
                            [((''self'', ''rx_ready''), Sig (''rx_init'', ''done''))]\<rparr>)))))"

text \<open>Reading the netlist: the signals an expression mentions, who drives and who reads a signal.\<close>

fun expr_signals :: "expr \<Rightarrow> signal list" where
  "expr_signals (Sig s) = [s]"
| "expr_signals (Bit s i) = [s]"
| "expr_signals (Slice s i j) = [s]"
| "expr_signals (Cat es) = concat (map expr_signals es)"
| "expr_signals (Const n) = []"
| "expr_signals (Str x) = []"
| "expr_signals (ClockSignal c) = []"

definition drivers :: "gtp \<Rightarrow> signal \<Rightarrow> expr list" where
  "drivers g s = map snd (filter (\<lambda>a. fst a = s) (comb g))"



text \<open>Every signal that appears in the netlist, as a target, in a source or at a port.\<close>

definition netlist_signals :: "gtp \<Rightarrow> signal list" where
  "netlist_signals g =
     map fst (comb g) @ concat (map (\<lambda>a. expr_signals (snd a)) (comb g))
     @ concat (map (\<lambda>i. concat (map (\<lambda>p. expr_signals (snd p)) (inst_ports i))) (specials g))"




section \<open>\<^verbatim>\<open>compute_config\<close> with the program state made explicit\<close>







section \<open>The search space as the specification words it\<close>

text \<open>
  The specification describes the solver as the first tuple \<open>(n1, n2, m, d)\<close>, in the
  order \<open>n1\<close>, then \<open>n2\<close>, then \<open>m\<close>, then \<open>d\<close>, each ascending, whose VCO frequency is in
  the band and whose line rate is the requested one. The definitions below follow these
  words; the theorems compare them with \<open>compute_config\<close>.
\<close>

definition vco_of :: "pyfloat \<Rightarrow> int \<Rightarrow> int \<Rightarrow> int \<Rightarrow> pyfloat" where
  "vco_of refclk_freq a b c = float_div (py_mul refclk_freq (of_pyint (a * b))) (of_pyint c)"

definition rate_of :: "pyfloat \<Rightarrow> int \<Rightarrow> pyfloat" where
  "rate_of vco k = float_div (py_mul vco (of_pyint 2)) (of_pyint k)"

definition in_band :: "pyfloat \<Rightarrow> bool" where
  "in_band vco = (py_le (float_lit 1600000000) vco \<and> py_le vco (float_lit 3300000000))"

fun satisfies :: "pyfloat \<Rightarrow> pyfloat \<Rightarrow> int \<times> int \<times> int \<times> int \<Rightarrow> bool" where
  "satisfies refclk_freq lr (a, b, c, k) =
     (in_band (vco_of refclk_freq a b c) \<and> py_eq (rate_of (vco_of refclk_freq a b c) k) lr)"

fun config_of :: "pyfloat \<Rightarrow> pyfloat \<Rightarrow> int \<times> int \<times> int \<times> int \<Rightarrow> config" where
  "config_of refclk_freq lr (a, b, c, k) =
     \<lparr>n1 = a, n2 = b, m = c, d = k, vco_freq = vco_of refclk_freq a b c,
      clkin = refclk_freq, linerate = lr\<rparr>"

definition candidates :: "(int \<times> int \<times> int \<times> int) list" where
  "candidates =
     concat (map (\<lambda>a. concat (map (\<lambda>b. concat (map (\<lambda>c. map (\<lambda>k. (a, b, c, k)) [1, 2, 4, 8])
       [1, 2])) [1, 2, 3, 4, 5])) [4, 5])"

section \<open>Rounding is exact on small integers\<close>

lemma rne_of_int: "rne (of_int k) = k"
  by (simp add: rne_def)

lemma bitlen_le_53: assumes "0 < i" "i < 2 ^ 53" shows "1 \<le> bitlen i \<and> bitlen i \<le> 53"
proof -
  from bitlen_bounds[OF assms(1)] have lo: "2 ^ nat (bitlen i - 1) \<le> i" by simp
  have pos: "1 \<le> bitlen i" using assms(1) by (simp add: bitlen_alt_def)
  have "(2::int) ^ nat (bitlen i - 1) < 2 ^ 53" using lo assms(2) by linarith
  then have "nat (bitlen i - 1) < 53" by (rule power_less_imp_less_exp[rotated]) simp
  then show ?thesis using pos by linarith
qed

lemma round_double_of_int:
  assumes "\<bar>i\<bar> < 2 ^ 53"
  shows "round_double (of_int i) = Fin (of_int i)"
proof (cases "i = 0")
  case True
  then show ?thesis by (simp add: round_double_def)
next
  case False
  define b where "b = bitlen \<bar>i\<bar>"
  have b: "1 \<le> b" "b \<le> 53" using bitlen_le_53[of "\<bar>i\<bar>"] False assms by (auto simp: b_def)
  have "1 \<le> \<bar>i\<bar>" using False by linarith
  then have x1: "(1::rat) \<le> of_int \<bar>i\<bar>" by (simp only: of_int_1_le_iff)
  have ab: "\<bar>rat_of_int i\<bar> = of_int \<bar>i\<bar>" by simp
  have e: "ilog2 \<bar>rat_of_int i\<bar> = b - 1"
    unfolding ab using x1 by (simp only: ilog2_def if_True floor_of_int b_def)
  have mx: "max (b - 1) (- 1022) = b - 1" using b by simp
  define k where "k = nat (53 - b)"
  have "b - 1 - 52 = - int k" using b by (simp add: k_def)
  then have u: "pow2 (b - 1 - 52) = 1 / 2 ^ k"
    by (cases "k = 0") (simp_all add: pow2_def)
  have q: "rat_of_int i / (1 / 2 ^ k) = of_int (i * 2 ^ k)" by simp
  have y: "of_int (rne (rat_of_int i / (1 / 2 ^ k))) * (1 / 2 ^ k) = rat_of_int i"
    unfolding q rne_of_int by simp
  have "rat_of_int \<bar>i\<bar> < 2 ^ 53" using assms by (simp only: of_int_less_numeral_power_cancel_iff)
  also have "(2::rat) ^ 53 \<le> 2 ^ 1024" by (rule power_increasing) simp_all
  finally have big: "\<not> pow2 1024 \<le> \<bar>rat_of_int i\<bar>" unfolding ab by (simp add: pow2_def)
  have nz: "rat_of_int i \<noteq> 0" using False by simp
  have "round_double (of_int i) =
     (let e = max (ilog2 \<bar>rat_of_int i\<bar>) (- 1022);
               u = pow2 (e - 52);
               y = of_int (rne (of_int i / u)) * u
           in if pow2 1024 \<le> \<bar>y\<bar> then (if 0 < rat_of_int i then PInf else NInf) else Fin y)"
    using nz by (simp only: round_double_def if_False)
  also have "\<dots> = Fin (of_int i)"
    using big by (simp only: e mx u y Let_def if_False)
  finally show ?thesis .
qed

lemma round_double_numeral:
  "numeral n < (2::int) ^ 53 \<Longrightarrow> round_double (numeral n) = Fin (numeral n)"
  using round_double_of_int[of "numeral n"] by simp

lemma round_double_one: "round_double 1 = Fin 1"
  using round_double_of_int[of 1] by simp

section \<open>The loops return the first satisfying candidate\<close>

lemma find_append_opt:
  "find P (xs @ ys) = (case find P xs of Some x \<Rightarrow> Some x | None \<Rightarrow> find P ys)"
  by (induction xs) auto

lemma find_none_all: "(\<And>x. x \<in> set xs \<Longrightarrow> \<not> P x) \<Longrightarrow> find P xs = None"
  by (induction xs) auto

lemma loop_d_find:
  "\<forall>k\<in>set ks. of_pyint k \<noteq> Fin 0 \<Longrightarrow>
   loop_d r l a b c (vco_of r a b c) ks =
     Inr (map_option (config_of r l) (find (satisfies r l) (map (\<lambda>k. (a, b, c, k)) ks)))"
  if "in_band (vco_of r a b c)"
  using that by (induction ks) (auto simp: py_truediv_def rate_of_def)

lemma loop_m_find:
  assumes cs: "\<forall>c\<in>set cs. of_pyint c \<noteq> Fin 0"
    and ds: "\<forall>k\<in>set [1, 2, 4, 8::int]. of_pyint k \<noteq> Fin 0"
  shows "loop_m r l a b cs =
     Inr (map_option (config_of r l)
       (find (satisfies r l) (concat (map (\<lambda>c. map (\<lambda>k. (a, b, c, k)) [1, 2, 4, 8]) cs))))"
proof -
  define ds where "ds = [1, 2, 4, 8::int]"
  define row where "row = (\<lambda>c::int. map (\<lambda>k. (a, b, c, k)) ds)"
  have ds': "\<forall>k\<in>set ds. of_pyint k \<noteq> Fin 0" using ds by (simp only: ds_def)
  have step: "loop_m r l a b (c # cs') =
     (case py_truediv (py_mul r (of_pyint (a * b))) (of_pyint c) of
        Inl e \<Rightarrow> Inl e
      | Inr vco \<Rightarrow>
          if in_band vco
          then (case loop_d r l a b c vco ds of
                  Inl e \<Rightarrow> Inl e
                | Inr (Some cfg) \<Rightarrow> Inr (Some cfg)
                | Inr None \<Rightarrow> loop_m r l a b cs')
          else loop_m r l a b cs')" for c cs'
    by (simp only: loop_m.simps ds_def in_band_def)
  have "loop_m r l a b cs =
     Inr (map_option (config_of r l) (find (satisfies r l) (concat (map row cs))))"
    using cs
  proof (induction cs)
    case Nil
    then show ?case by simp
  next
    case (Cons c cs)
    have nz: "of_pyint c \<noteq> Fin 0" using Cons.prems by simp
    have ih: "loop_m r l a b cs =
       Inr (map_option (config_of r l) (find (satisfies r l) (concat (map row cs))))"
      using Cons by simp
    have v: "py_truediv (py_mul r (of_pyint (a * b))) (of_pyint c) = Inr (vco_of r a b c)"
      using nz by (simp add: py_truediv_def vco_of_def)
    have cc: "concat (map row (c # cs)) = row c @ concat (map row cs)" by simp
    show ?case
    proof (cases "in_band (vco_of r a b c)")
      case True
      have ld: "loop_d r l a b c (vco_of r a b c) ds =
        Inr (map_option (config_of r l) (find (satisfies r l) (row c)))"
        unfolding row_def using loop_d_find[OF True ds'] .
      show ?thesis
        unfolding step v cc find_append_opt using True ih ld
        by (cases "find (satisfies r l) (row c)") simp_all
    next
      case False
      have none: "find (satisfies r l) (row c) = None"
        unfolding row_def using False by (intro find_none_all) auto
      show ?thesis
        unfolding step v cc find_append_opt using False ih none by simp
    qed
  qed
  then show ?thesis by (simp only: row_def ds_def)
qed

lemma of_pyint_small: "\<bar>i\<bar> < 2 ^ 53 \<Longrightarrow> of_pyint i = Fin (of_int i)"
  by (simp only: of_pyint_def round_double_of_int)

lemma ds_nonzero: "\<forall>k\<in>set [1, 2, 4, 8::int]. of_pyint k \<noteq> Fin 0"
  by (simp add: of_pyint_small)

lemma ms_nonzero: "\<forall>c\<in>set [1, 2::int]. of_pyint c \<noteq> Fin 0"
  by (simp add: of_pyint_small)

lemma loop_n2_find:
  "loop_n2 r l a bs =
     Inr (map_option (config_of r l)
       (find (satisfies r l)
         (concat (map (\<lambda>b. concat (map (\<lambda>c. map (\<lambda>k. (a, b, c, k)) [1, 2, 4, 8]) [1, 2])) bs))))"
proof -
  define row where
    "row = (\<lambda>b::int. concat (map (\<lambda>c::int. map (\<lambda>k::int. (a, b, c, k)) [1, 2, 4, 8]) [1, 2]))"
  have lm: "loop_m r l a b [1, 2] =
      Inr (map_option (config_of r l) (find (satisfies r l) (row b)))" for b
    unfolding row_def by (rule loop_m_find[OF ms_nonzero ds_nonzero])
  have "loop_n2 r l a bs =
     Inr (map_option (config_of r l) (find (satisfies r l) (concat (map row bs))))"
  proof (induction bs)
    case Nil
    then show ?case by simp
  next
    case (Cons b bs)
    have cc: "concat (map row (b # bs)) = row b @ concat (map row bs)" by simp
    show ?case
      unfolding loop_n2.simps cc find_append_opt using Cons lm[of b]
      by (cases "find (satisfies r l) (row b)") simp_all
  qed
  then show ?thesis by (simp only: row_def)
qed

lemma loop_n1_find:
  "loop_n1 r l as =
     Inr (map_option (config_of r l)
       (find (satisfies r l)
         (concat (map (\<lambda>a. concat (map (\<lambda>b. concat (map (\<lambda>c. map (\<lambda>k. (a, b, c, k)) [1, 2, 4, 8])
           [1, 2])) [1, 2, 3, 4, 5])) as))))"
proof -
  define row where
    "row = (\<lambda>a::int. concat (map (\<lambda>b::int. concat (map (\<lambda>c::int. map (\<lambda>k::int. (a, b, c, k))
       [1, 2, 4, 8]) [1, 2])) [1, 2, 3, 4, 5]))"
  have ln: "loop_n2 r l a [1, 2, 3, 4, 5] =
      Inr (map_option (config_of r l) (find (satisfies r l) (row a)))" for a
    unfolding row_def by (rule loop_n2_find)
  have "loop_n1 r l as =
     Inr (map_option (config_of r l) (find (satisfies r l) (concat (map row as))))"
  proof (induction as)
    case Nil
    then show ?case by simp
  next
    case (Cons a as)
    have cc: "concat (map row (a # as)) = row a @ concat (map row as)" by simp
    show ?case
      unfolding loop_n1.simps cc find_append_opt using Cons ln[of a]
      by (cases "find (satisfies r l) (row a)") simp_all
  qed
  then show ?thesis by (simp only: row_def)
qed

lemma float_lit_nonzero:
  "float_lit 1000000 \<noteq> Fin 0" "float_lit 1000000000 \<noteq> Fin 0"
  by (simp_all add: float_lit_def round_double_numeral)

lemma raise_no_config_eq:
  "raise_no_config r l =
     ValueError (float_div r (float_lit 1000000)) (float_div l (float_lit 1000000000))"
  by (simp add: raise_no_config_def py_truediv_def float_lit_nonzero)

lemma compute_config_find:
  "compute_config r l =
     (case find (satisfies r l) candidates of
        Some t \<Rightarrow> Inr (config_of r l t)
      | None \<Rightarrow> Inl (ValueError (float_div r (float_lit 1000000))
                                (float_div l (float_lit 1000000000))))"
  unfolding compute_config_def loop_n1_find raise_no_config_eq candidates_def
  by (simp split: option.split)

lemma cand_set: "set candidates = {4, 5} \<times> {1, 2, 3, 4, 5} \<times> {1, 2} \<times> {1, 2, 4, 8}"
  by (auto simp: candidates_def)

lemmas eval_simps =
  float_lit_def of_pyint_def round_double_numeral round_double_one py_eq_def
  py_truediv_def vco_of_def rate_of_def in_band_def

section \<open>What the constructor builds\<close>

lemma py_le_not_lt: "py_le c x \<Longrightarrow> \<not> py_lt x c"
  by (cases c; cases x) auto

lemma twenty_nonzero: "of_pyint 20 \<noteq> Fin 0"
  by (simp add: of_pyint_small)

lemma rxcdr_cfgs_dom: "dom rxcdr_cfgs = {1, 2, 4, 8}"
  by (auto simp: rxcdr_cfgs_def split: if_splits)

lemma GTP_init_no_aligner:
  assumes "py_lt (linerate cfg) (float_lit 6600000000)" and "rxcdr_cfgs (d cfg) = Some v"
  shows "GTP_init cfg s False lb tp rp =
     Inr \<lparr>signals = gtp_signals,
          tx_clk_freq = Some (float_div (linerate cfg) (of_pyint 20)),
          submodules = [Submodule ''tx'' ''_TX'' [AInt 20] (Some ''tx''),
                        Submodule ''rx'' ''_RX'' [AInt 20] (Some ''rx''),
                        Submodule ''tx_init'' ''GTPTXInit'' [AFloat s] None,
                        Submodule ''rx_init'' ''GTPRXInit''
                          [AFloat (float_div (linerate cfg) (of_pyint 20))] (Some ''tx'')],
          comb = control_comb @ pll_comb @ [((''self'', ''rx_ready''), Sig (''rx_init'', ''done''))],
          specials = [gtpe2_channel cfg v lb tp rp,
                      Instance ''BUFG'' [(''i_I'', Sig (''self'', ''txoutclk'')),
                                         (''o_O'', Sig (''cd_tx'', ''clk''))],
                      Instance ''BUFG'' [(''i_I'', Sig (''self'', ''rxoutclk'')),
                                         (''o_O'', Sig (''cd_rx'', ''clk''))]],
          clock_domains = [''tx'', ''rx'']\<rparr>"
  using assms by (simp add: GTP_init_def Let_def py_truediv_def twenty_nonzero)


lemma channel_no_aligner:
  "\<forall>s \<in> set (concat (map (\<lambda>p. expr_signals (snd p)) (inst_ports (gtpe2_channel cfg v lb tp rp)))).
     fst s \<noteq> ''clock_aligner''"
  by (simp add: gtpe2_channel_def)

lemma compute_config_d:
  assumes "compute_config r l = Inr cfg"
  shows "d cfg \<in> {1, 2, 4, 8}"
proof -
  from assms obtain t where f: "find (satisfies r l) candidates = Some t"
    and c: "cfg = config_of r l t"
    by (auto simp: compute_config_find split: option.splits)
  obtain a b c' k where t: "t = (a, b, c', k)" by (cases t) auto
  from f have "t \<in> set candidates" by (auto simp: find_Some_iff)
  then show ?thesis unfolding t c cand_set by auto
qed

lemma GTP_init_assert:
  assumes "\<not> py_lt (linerate cfg) (float_lit 6600000000)"
  shows "GTP_init cfg s ca lb tp rp =
     Inl (AssertionError,
          \<lparr>signals = gtp_signals,
           tx_clk_freq = Some (float_div (linerate cfg) (of_pyint 20)),
           submodules = [Submodule ''tx'' ''_TX'' [AInt 20] (Some ''tx''),
                         Submodule ''rx'' ''_RX'' [AInt 20] (Some ''rx''),
                         Submodule ''tx_init'' ''GTPTXInit'' [AFloat s] None,
                         Submodule ''rx_init'' ''GTPRXInit''
                           [AFloat (float_div (linerate cfg) (of_pyint 20))] (Some ''tx'')],
           comb = control_comb @ pll_comb, specials = [], clock_domains = []\<rparr>)"
  using assms by (simp add: GTP_init_def Let_def py_truediv_def twenty_nonzero)

section \<open>Reachability in the netlist and the state-passing solver\<close>
















section \<open>The solver: what every returned configuration satisfies\<close>

text \<open>
  Claim C1. Whenever \<open>compute_config\<close> returns a configuration, its dividers are in their
  ranges (\<open>n1\<close> in 4, 5; \<open>n2\<close> in 1 to 5; \<open>m\<close> in 1, 2; \<open>d\<close> in 1, 2, 4, 8), its
  \<open>vco_freq\<close> is the value of \<^verbatim>\<open>refclk_freq*(n1*n2)/m\<close> and lies between 1.6e9 and 3.3e9,
  the value of \<^verbatim>\<open>vco_freq*2/d\<close> compares equal to the requested line rate, and the
  fields \<open>clkin\<close> and \<open>linerate\<close> are the two inputs. All arithmetic is that of Python
  floats, with the product \<^verbatim>\<open>n1*n2\<close> formed first, as the source writes it.
\<close>

theorem compute_config_invariants:
  assumes "compute_config refclk_freq lr = Inr cfg"
  shows "n1 cfg \<in> {4, 5} \<and> n2 cfg \<in> {1, 2, 3, 4, 5} \<and> m cfg \<in> {1, 2} \<and> d cfg \<in> {1, 2, 4, 8}
    \<and> py_truediv (py_mul refclk_freq (of_pyint (n1 cfg * n2 cfg))) (of_pyint (m cfg))
          = Inr (vco_freq cfg)
    \<and> py_le (float_lit 1600000000) (vco_freq cfg) \<and> py_le (vco_freq cfg) (float_lit 3300000000)
    \<and> (\<exists>current_linerate.
          py_truediv (py_mul (vco_freq cfg) (of_pyint 2)) (of_pyint (d cfg)) = Inr current_linerate
          \<and> py_eq current_linerate lr)
    \<and> clkin cfg = refclk_freq \<and> linerate cfg = lr"
proof -
  from assms obtain t where f: "find (satisfies refclk_freq lr) candidates = Some t"
    and c: "cfg = config_of refclk_freq lr t"
    by (auto simp: compute_config_find split: option.splits)
  obtain a b c' k where t: "t = (a, b, c', k)" by (cases t) auto
  from f have mem: "t \<in> set candidates" and sat: "satisfies refclk_freq lr t"
    by (auto simp: find_Some_iff)
  from mem have rng: "a \<in> {4, 5}" "b \<in> {1, 2, 3, 4, 5}" "c' \<in> {1, 2}" "k \<in> {1, 2, 4, 8}"
    unfolding t cand_set by auto
  have nzc: "of_pyint c' \<noteq> Fin 0" using rng(3) ms_nonzero by auto
  have nzk: "of_pyint k \<noteq> Fin 0" using rng(4) ds_nonzero by auto
  show ?thesis
    using rng sat nzc nzk unfolding c t
    by (simp add: py_truediv_def vco_of_def rate_of_def in_band_def)
qed

theorem compute_config_invariants_witness:
  "compute_config (float_lit 100000000) (float_lit 2000000000) =
     Inr \<lparr>n1 = 4, n2 = 5, m = 1, d = 2, vco_freq = Fin 2000000000,
          clkin = Fin 100000000, linerate = Fin 2000000000\<rparr>
   \<and> py_truediv (py_mul (float_lit 100000000) (of_pyint (4 * 5))) (of_pyint 1)
       = Inr (Fin 2000000000)
   \<and> py_le (float_lit 1600000000) (Fin 2000000000)
   \<and> py_le (Fin 2000000000) (float_lit 3300000000)
   \<and> (\<exists>current_linerate.
         py_truediv (py_mul (Fin 2000000000) (of_pyint 2)) (of_pyint 2) = Inr current_linerate
         \<and> py_eq current_linerate (float_lit 2000000000))"
proof -
  have h: "compute_config (float_lit 100000000) (float_lit 2000000000) =
     Inr \<lparr>n1 = 4, n2 = 5, m = 1, d = 2, vco_freq = Fin 2000000000,
          clkin = Fin 100000000, linerate = Fin 2000000000\<rparr>"
    by (simp add: compute_config_def eval_simps)
  show ?thesis using compute_config_invariants [OF h] h by (simp add: eval_simps)
qed

section \<open>The two concrete scenarios\<close>

text \<open>
  Claim C2, as amended. For \<^verbatim>\<open>refclk_freq = 125e6\<close> and \<^verbatim>\<open>linerate = 2.5e9\<close> the solver
  returns \<open>n1 = 4\<close>, \<open>n2 = 5\<close>, \<open>m = 1\<close>, \<open>d = 2\<close> with \<open>vco_freq = 2.5e9\<close>: the first tuple of
  the enumeration whose VCO frequency is in band and whose line rate \<^verbatim>\<open>vco_freq*2/d\<close> is
  2.5e9.
\<close>

theorem compute_config_125MHz_2500Mbps:
  "compute_config (float_lit 125000000) (float_lit 2500000000) =
     Inr \<lparr>n1 = 4, n2 = 5, m = 1, d = 2, vco_freq = Fin 2500000000,
          clkin = Fin 125000000, linerate = Fin 2500000000\<rparr>"
  by (simp add: compute_config_def eval_simps)

text \<open>
  The configuration the claim names, \<open>n1 = 5\<close>, \<open>n2 = 4\<close>, \<open>m = 1\<close>, \<open>d = 4\<close>, is not what
  the solver returns; with \<open>d = 4\<close> the line rate of a 2.5e9 VCO is 1.25e9, so that tuple
  does not even satisfy the line-rate constraint.
\<close>

theorem compute_config_125MHz_2500Mbps_counterexample:
  "compute_config (float_lit 125000000) (float_lit 2500000000) \<noteq>
     Inr \<lparr>n1 = 5, n2 = 4, m = 1, d = 4, vco_freq = Fin 2500000000,
          clkin = Fin 125000000, linerate = Fin 2500000000\<rparr>
   \<and> \<not> satisfies (float_lit 125000000) (float_lit 2500000000) (5, 4, 1, 4)"
  by (simp add: compute_config_def eval_simps)

text \<open>
  Claim C3, as amended. For \<^verbatim>\<open>refclk_freq = 125e6\<close> and \<^verbatim>\<open>linerate = 1e9\<close> the tuple
  \<open>n1 = 4\<close>, \<open>n2 = 4\<close>, \<open>m = 1\<close>, \<open>d = 4\<close> is in the search space and satisfies both
  constraints (VCO frequency 2e9, line rate \<^verbatim>\<open>2e9*2/4 = 1e9\<close>), and the solver returns it.
\<close>

theorem compute_config_125MHz_1000Mbps:
  "(4, 4, 1, 4) \<in> set candidates
   \<and> satisfies (float_lit 125000000) (float_lit 1000000000) (4, 4, 1, 4)
   \<and> compute_config (float_lit 125000000) (float_lit 1000000000) =
       Inr \<lparr>n1 = 4, n2 = 4, m = 1, d = 4, vco_freq = Fin 2000000000,
            clkin = Fin 125000000, linerate = Fin 1000000000\<rparr>"
  by (simp add: compute_config_def cand_set eval_simps)

text \<open>The claim as stated, that no tuple satisfies the constraints and the solver fails, is false.\<close>

theorem compute_config_125MHz_1000Mbps_counterexample:
  "satisfies (float_lit 125000000) (float_lit 1000000000) (4, 4, 1, 4)
   \<and> \<not> isl (compute_config (float_lit 125000000) (float_lit 1000000000))"
  by (simp add: compute_config_def eval_simps)

section \<open>The solver and the enumeration order\<close>

text \<open>
  Claim C4. \<open>candidates\<close> lists the search space in the fixed order: \<open>n1\<close> ascending over
  4, 5, then \<open>n2\<close> ascending over 1 to 5, then \<open>m\<close> ascending over 1, 2, then \<open>d\<close> ascending
  over 1, 2, 4, 8. Whenever some tuple of the search space satisfies both constraints,
  \<open>compute_config\<close> returns the configuration of the first satisfying tuple of that list:
  no tuple before it satisfies the constraints.
\<close>

theorem compute_config_first_match:
  assumes "\<exists>t \<in> set candidates. satisfies refclk_freq lr t"
  shows "\<exists>i < length candidates.
           satisfies refclk_freq lr (candidates ! i)
         \<and> (\<forall>j < i. \<not> satisfies refclk_freq lr (candidates ! j))
         \<and> compute_config refclk_freq lr = Inr (config_of refclk_freq lr (candidates ! i))"
proof -
  from assms have "find (satisfies refclk_freq lr) candidates \<noteq> None"
    unfolding find_None_iff by blast
  then obtain t where f: "find (satisfies refclk_freq lr) candidates = Some t" by auto
  then obtain i where i: "i < length candidates" "satisfies refclk_freq lr (candidates ! i)"
      "t = candidates ! i" "\<forall>j < i. \<not> satisfies refclk_freq lr (candidates ! j)"
    unfolding find_Some_iff by blast
  have "compute_config refclk_freq lr = Inr (config_of refclk_freq lr t)"
    by (simp add: compute_config_find f)
  with i show ?thesis by blast
qed

theorem compute_config_first_match_witness:
  "(\<exists>t \<in> set candidates. satisfies (float_lit 125000000) (float_lit 2500000000) t)
   \<and> (\<exists>i < length candidates.
           satisfies (float_lit 125000000) (float_lit 2500000000) (candidates ! i)
         \<and> (\<forall>j < i. \<not> satisfies (float_lit 125000000) (float_lit 2500000000) (candidates ! j))
         \<and> compute_config (float_lit 125000000) (float_lit 2500000000) =
             Inr (config_of (float_lit 125000000) (float_lit 2500000000) (candidates ! i)))"
proof -
  have "(4, 5, 1, 2) \<in> set candidates
      \<and> satisfies (float_lit 125000000) (float_lit 2500000000) (4, 5, 1, 2)"
    by (simp add: cand_set eval_simps)
  then have h: "\<exists>t \<in> set candidates. satisfies (float_lit 125000000) (float_lit 2500000000) t"
    by blast
  show ?thesis using compute_config_first_match [OF h] h by blast
qed

section \<open>The solver fails exactly when nothing matches\<close>

text \<open>
  Claim C5. When no tuple of the search space gives an in-band VCO frequency and the
  requested line rate, \<open>compute_config\<close> raises the \<^verbatim>\<open>ValueError\<close> whose message is formatted
  from \<^verbatim>\<open>refclk_freq/1e6\<close> and \<^verbatim>\<open>linerate/1e9\<close>. It returns a configuration if and only if a
  satisfying tuple exists, and every configuration it returns is the configuration of a
  satisfying tuple.
\<close>

theorem compute_config_fails_iff_no_match:
  "(\<not> (\<exists>t \<in> set candidates. satisfies refclk_freq lr t) \<longrightarrow>
      (\<exists>x y. py_truediv refclk_freq (float_lit 1000000) = Inr x
           \<and> py_truediv lr (float_lit 1000000000) = Inr y
           \<and> compute_config refclk_freq lr = Inl (ValueError x y)))
   \<and> ((\<exists>cfg. compute_config refclk_freq lr = Inr cfg)
        \<longleftrightarrow> (\<exists>t \<in> set candidates. satisfies refclk_freq lr t))
   \<and> (\<forall>cfg. compute_config refclk_freq lr = Inr cfg \<longrightarrow>
        (\<exists>t \<in> set candidates. satisfies refclk_freq lr t \<and> cfg = config_of refclk_freq lr t))"
proof (cases "find (satisfies refclk_freq lr) candidates")
  case None
  then have no: "\<not> (\<exists>t \<in> set candidates. satisfies refclk_freq lr t)"
    unfolding find_None_iff by blast
  have "compute_config refclk_freq lr =
      Inl (ValueError (float_div refclk_freq (float_lit 1000000))
                      (float_div lr (float_lit 1000000000)))"
    by (simp add: compute_config_find None)
  with no show ?thesis by (simp add: py_truediv_def float_lit_nonzero)
next
  case (Some t)
  then have yes: "t \<in> set candidates" "satisfies refclk_freq lr t"
    by (auto simp: find_Some_iff)
  have "compute_config refclk_freq lr = Inr (config_of refclk_freq lr t)"
    by (simp add: compute_config_find Some)
  with yes show ?thesis by auto
qed

theorem compute_config_fails_iff_no_match_witness:
  "\<not> (\<exists>t \<in> set candidates. satisfies (float_lit 125000000) (float_lit 3000000000) t)
   \<and> py_truediv (float_lit 125000000) (float_lit 1000000) = Inr (Fin 125)
   \<and> py_truediv (float_lit 3000000000) (float_lit 1000000000) = Inr (Fin 3)
   \<and> compute_config (float_lit 125000000) (float_lit 3000000000) = Inl (ValueError (Fin 125) (Fin 3))
   \<and> \<not> (\<exists>cfg. compute_config (float_lit 125000000) (float_lit 3000000000) = Inr cfg)"
proof -
  have no: "\<not> (\<exists>t \<in> set candidates. satisfies (float_lit 125000000) (float_lit 3000000000) t)"
    by (simp add: candidates_def eval_simps)
  have x: "py_truediv (float_lit 125000000) (float_lit 1000000) = Inr (Fin 125)"
    by (simp add: eval_simps)
  have y: "py_truediv (float_lit 3000000000) (float_lit 1000000000) = Inr (Fin 3)"
    by (simp add: eval_simps)
  show ?thesis
    using compute_config_fails_iff_no_match
            [of "float_lit 125000000" "float_lit 3000000000"] no x y
    by auto
qed

section \<open>The solver reads and writes no state\<close>



section \<open>Readiness without the clock aligner\<close>

text \<open>
  Claim C6. When \<^verbatim>\<open>GTP\<close> is constructed with \<^verbatim>\<open>clock_aligner = False\<close> (and the constructor
  gets past its assertion and its table lookup), the only assignment to \<^verbatim>\<open>self.rx_ready\<close>
  is \<^verbatim>\<open>self.rx_ready.eq(rx_init.done)\<close>, no \<^verbatim>\<open>BruteforceClockAligner\<close> is among the
  submodules, and no signal of a clock aligner appears anywhere in the netlist.
\<close>

theorem rx_ready_without_aligner:
  assumes "py_lt (linerate cfg) (float_lit 6600000000)" and "d cfg \<in> {1, 2, 4, 8}"
  shows "\<exists>g. GTP_init cfg sys_clk_freq False internal_loopback tx_polarity rx_polarity = Inr g
    \<and> drivers g (''self'', ''rx_ready'') = [Sig (''rx_init'', ''done'')]
    \<and> ''BruteforceClockAligner'' \<notin> set (map sm_class (submodules g))
    \<and> ''clock_aligner'' \<notin> set (map sm_name (submodules g))
    \<and> (\<forall>s \<in> set (netlist_signals g). fst s \<noteq> ''clock_aligner'')"
proof -
  from assms(2) obtain v where v: "rxcdr_cfgs (d cfg) = Some v"
    using rxcdr_cfgs_dom by blast
  note g = GTP_init_no_aligner [OF assms(1) v]
  show ?thesis
    unfolding g using channel_no_aligner [of cfg v internal_loopback tx_polarity rx_polarity]
    by (simp add: drivers_def netlist_signals_def control_comb_def pll_comb_def)
qed

theorem rx_ready_without_aligner_witness:
  "py_lt (Fin 2500000000) (float_lit 6600000000) \<and> (2::int) \<in> {1, 2, 4, 8}
   \<and> (\<exists>g. GTP_init \<lparr>n1 = 4, n2 = 5, m = 1, d = 2, vco_freq = Fin 2500000000,
                     clkin = Fin 125000000, linerate = Fin 2500000000\<rparr>
                   (Fin 100000000) False False 0 0 = Inr g
        \<and> drivers g (''self'', ''rx_ready'') = [Sig (''rx_init'', ''done'')]
        \<and> ''BruteforceClockAligner'' \<notin> set (map sm_class (submodules g)))"
proof -
  have a: "py_lt (linerate \<lparr>n1 = 4, n2 = 5, m = 1, d = 2, vco_freq = Fin 2500000000,
                     clkin = Fin 125000000, linerate = Fin 2500000000\<rparr>) (float_lit 6600000000)"
    by (simp add: eval_simps)
  have b: "d \<lparr>n1 = 4, n2 = 5, m = 1, d = 2, vco_freq = Fin 2500000000,
                     clkin = Fin 125000000, linerate = Fin 2500000000\<rparr> \<in> {1, 2, 4, 8}"
    by simp
  show ?thesis
    using rx_ready_without_aligner [OF a b, of "Fin 100000000" False 0 0] a
    by auto
qed

section \<open>The scope of a restart\<close>



section \<open>The assertion on the line rate\<close>

text \<open>
  Claim C9. The constructor asserts \<^verbatim>\<open>qpll.config["linerate"] < 6.6e9\<close>. For every
  configuration whose line rate is 6.6e9 or more, construction fails with an
  \<^verbatim>\<open>AssertionError\<close>, and at that point no instance, in particular no \<^verbatim>\<open>GTPE2_CHANNEL\<close>,
  has been added to the module.
\<close>

theorem assertion_rejects_linerate:
  assumes "py_le (float_lit 6600000000) (linerate cfg)"
  shows "\<exists>g. GTP_init cfg sys_clk_freq clock_aligner internal_loopback tx_polarity rx_polarity
               = Inl (AssertionError, g)
           \<and> specials g = []"
proof -
  from assms have "\<not> py_lt (linerate cfg) (float_lit 6600000000)"
    by (rule py_le_not_lt)
  then show ?thesis by (simp add: GTP_init_assert)
qed

text \<open>
  The hypothesis is met by a configuration the solver itself returns: 165 MHz and
  6.6 Gbps give \<open>vco_freq = 3.3e9\<close>, the upper end of the band, and \<open>d = 1\<close>.
\<close>

theorem assertion_rejects_linerate_witness:
  "compute_config (float_lit 165000000) (float_lit 6600000000) =
     Inr \<lparr>n1 = 4, n2 = 5, m = 1, d = 1, vco_freq = Fin 3300000000,
          clkin = Fin 165000000, linerate = Fin 6600000000\<rparr>
   \<and> py_le (float_lit 6600000000) (Fin 6600000000)
   \<and> (\<exists>g. GTP_init \<lparr>n1 = 4, n2 = 5, m = 1, d = 1, vco_freq = Fin 3300000000,
                     clkin = Fin 165000000, linerate = Fin 6600000000\<rparr>
                   (Fin 100000000) True False 0 0 = Inl (AssertionError, g)
          \<and> specials g = [])"
proof -
  have c: "compute_config (float_lit 165000000) (float_lit 6600000000) =
     Inr \<lparr>n1 = 4, n2 = 5, m = 1, d = 1, vco_freq = Fin 3300000000,
          clkin = Fin 165000000, linerate = Fin 6600000000\<rparr>"
    by (simp add: compute_config_def eval_simps)
  have a: "py_le (float_lit 6600000000)
             (linerate \<lparr>n1 = 4, n2 = 5, m = 1, d = 1, vco_freq = Fin 3300000000,
                        clkin = Fin 165000000, linerate = Fin 6600000000\<rparr>)"
    by (simp add: eval_simps)
  show ?thesis
    using assertion_rejects_linerate [OF a, of "Fin 100000000" True False 0 0] a c
    by auto
qed

section \<open>The lookup in \<^verbatim>\<open>rxcdr_cfgs\<close>\<close>

text \<open>
  Claim C10. The keys of \<^verbatim>\<open>rxcdr_cfgs\<close> are exactly 1, 2, 4 and 8, every configuration
  returned by \<open>compute_config\<close> has its \<open>d\<close> among them, so \<^verbatim>\<open>rxcdr_cfgs[qpll.config["d"]]\<close>
  finds a value and the constructor never raises \<^verbatim>\<open>KeyError\<close> on such a configuration.
\<close>

theorem rxcdr_lookup_never_fails:
  assumes "compute_config refclk_freq lr = Inr cfg"
  shows "dom rxcdr_cfgs = {1, 2, 4, 8}
    \<and> d cfg \<in> dom rxcdr_cfgs
    \<and> (\<forall>g. GTP_init cfg sys_clk_freq clock_aligner internal_loopback tx_polarity rx_polarity
              \<noteq> Inl (KeyError, g))"
proof -
  have dd: "d cfg \<in> {1, 2, 4, 8}" using assms by (rule compute_config_d)
  then obtain v where v: "rxcdr_cfgs (d cfg) = Some v"
    using rxcdr_cfgs_dom by blast
  have "GTP_init cfg sys_clk_freq clock_aligner internal_loopback tx_polarity rx_polarity
          \<noteq> Inl (KeyError, g)" for g
    by (simp add: GTP_init_def Let_def py_truediv_def twenty_nonzero v)
  with dd show ?thesis by (simp add: rxcdr_cfgs_dom)
qed

theorem rxcdr_lookup_never_fails_witness:
  "compute_config (float_lit 125000000) (float_lit 1250000000) =
     Inr \<lparr>n1 = 4, n2 = 5, m = 1, d = 4, vco_freq = Fin 2500000000,
          clkin = Fin 125000000, linerate = Fin 1250000000\<rparr>
   \<and> (4::int) \<in> dom rxcdr_cfgs
   \<and> (\<forall>g. GTP_init \<lparr>n1 = 4, n2 = 5, m = 1, d = 4, vco_freq = Fin 2500000000,
                     clkin = Fin 125000000, linerate = Fin 1250000000\<rparr>
                   (Fin 100000000) True False 0 0 \<noteq> Inl (KeyError, g))"
proof -
  have c: "compute_config (float_lit 125000000) (float_lit 1250000000) =
     Inr \<lparr>n1 = 4, n2 = 5, m = 1, d = 4, vco_freq = Fin 2500000000,
          clkin = Fin 125000000, linerate = Fin 1250000000\<rparr>"
    by (simp add: compute_config_def eval_simps)
  show ?thesis
    using rxcdr_lookup_never_fails [OF c, of "Fin 100000000" True False 0 0] c
    by auto
qed

end
